theory Spec2Isabelle
  imports Main "HOL-Library.Multiset" "HOL-Library.Sublist"
begin

section \<open>Match data\<close>

text \<open>
  \<^verbatim>\<open>enum MatchResult { HomeWin = "H", AwayWin = "A", Draw = "D" }\<close> (quoted in the README) is
  a string enum: at run time a value of that type is the string itself, and \<^verbatim>\<open>===\<close> on it
  compares strings.
\<close>

type_synonym MatchResult = string

definition HomeWin :: MatchResult where "HomeWin = ''H''"
definition AwayWin :: MatchResult where "AwayWin = ''A''"
definition Draw :: MatchResult where "Draw = ''D''"

text \<open>
  \<^verbatim>\<open>type MatchData = [Date, string, string, number, number, MatchResult, string]\<close>.
  The analysis never looks at the date or at the goals, so their representations
  (\<open>'d\<close> and \<open>'n\<close>) are left open; \<open>'s\<close> is what the text positions hold, \<open>string\<close> in the
  declared type.
\<close>

type_synonym ('d, 'n, 's) MatchTuple = "'d \<times> 's \<times> 's \<times> 'n \<times> 'n \<times> 's \<times> 's"

type_synonym ('d, 'n) MatchData = "('d, 'n, string) MatchTuple"

text \<open>The positions \<^verbatim>\<open>match[1]\<close>, \<^verbatim>\<open>match[2]\<close> and \<^verbatim>\<open>match[5]\<close> of the tuple.\<close>

definition at1 :: "('d, 'n, 's) MatchTuple \<Rightarrow> 's" where
  "at1 = (\<lambda>(date, home, away, homeGoals, awayGoals, result, competition). home)"

definition at2 :: "('d, 'n, 's) MatchTuple \<Rightarrow> 's" where
  "at2 = (\<lambda>(date, home, away, homeGoals, awayGoals, result, competition). away)"

definition at5 :: "('d, 'n, 's) MatchTuple \<Rightarrow> 's" where
  "at5 = (\<lambda>(date, home, away, homeGoals, awayGoals, result, competition). result)"

section \<open>WinsAnalysis\<close>

text \<open>
  The template literal renders the counter with \<^verbatim>\<open>Number.prototype.toString\<close>: for a
  non-negative integer, its decimal digits without leading zeros. The counter is
  incremented once per array element at most, so it stays far below \<open>2^53\<close> and the
  JavaScript number is exactly the natural number.
\<close>

definition digitChar :: "nat \<Rightarrow> char" where
  "digitChar d = char_of (48 + d)"

fun numberToString :: "nat \<Rightarrow> string" where
  "numberToString n =
     (if n < 10 then [digitChar n] else numberToString (n div 10) @ [digitChar (n mod 10)])"

text \<open>Reading a digit string back, to state that \<open>numberToString\<close> writes the decimal numeral.\<close>

definition digitsValue :: "string \<Rightarrow> nat" where
  "digitsValue s = foldl (\<lambda>acc c. 10 * acc + (of_char c - 48)) 0 s"

text \<open>
  The \<^verbatim>\<open>for (let match of matches)\<close> loop of \<^verbatim>\<open>run\<close>, with the counter \<^verbatim>\<open>teamWins\<close> as
  accumulator.
\<close>

fun countWins :: "string \<Rightarrow> ('d, 'n) MatchData list \<Rightarrow> nat \<Rightarrow> nat" where
  "countWins team [] teamWins = teamWins"
| "countWins team (match # matches) teamWins =
     countWins team matches
       (if (at1 match = team \<and> at5 match = HomeWin) \<or> (at2 match = team \<and> at5 match = AwayWin)
        then teamWins + 1
        else teamWins)"

definition WinsAnalysis_run :: "string \<Rightarrow> ('d, 'n) MatchData list \<Rightarrow> string" where
  "WinsAnalysis_run team matches =
     (let teamWins = countWins team matches 0
      in team @ '' won '' @ numberToString teamWins @ '' games'')"

text \<open>The condition of the specification, kept apart from the loop that is checked against it.\<close>

definition isWinFor :: "string \<Rightarrow> ('d, 'n) MatchData \<Rightarrow> bool" where
  "isWinFor team m \<longleftrightarrow>
     (at1 m = team \<and> at5 m = HomeWin) \<or> (at2 m = team \<and> at5 m = AwayWin)"


section \<open>The environment: exceptions, files, strings\<close>

text \<open>
  A JavaScript exception is a value: \<open>IOError path\<close> is what \<^verbatim>\<open>fs.readFileSync\<close> and
  \<^verbatim>\<open>fs.writeFileSync\<close> throw for a path they cannot serve, \<open>Thrown x\<close> is an exception
  \<open>x\<close> of a callback.
\<close>

datatype 'x exn = IOError string | Thrown 'x

text \<open>
  The files by path, and the paths where a write is refused (a directory, a read-only
  file, a missing parent directory).
\<close>

record filesystem =
  files :: "string \<rightharpoonup> string"
  denied :: "string set"

definition readFileSync :: "string \<Rightarrow> filesystem \<Rightarrow> 'x exn + string" where
  "readFileSync path fs =
     (case files fs path of None \<Rightarrow> Inl (IOError path) | Some text \<Rightarrow> Inr text)"

definition writeFileSync :: "string \<Rightarrow> string \<Rightarrow> filesystem \<Rightarrow> 'x exn + filesystem" where
  "writeFileSync path content fs =
     (if path \<in> denied fs then Inl (IOError path)
      else Inr (fs\<lparr>files := (files fs)(path \<mapsto> content)\<rparr>))"

text \<open>
  \<^verbatim>\<open>String.prototype.split\<close> with a one-character separator: the pieces between the
  separators, so \<^verbatim>\<open>"".split(",")\<close> is \<^verbatim>\<open>[""]\<close> and \<^verbatim>\<open>"a\n".split("\n")\<close> is \<^verbatim>\<open>["a", ""]\<close>.
  The result is never empty; the second branch of the \<open>case\<close> is not reached.
\<close>

fun String_split :: "char \<Rightarrow> string \<Rightarrow> string list" where
  "String_split sep [] = [[]]"
| "String_split sep (c # cs) =
     (if c = sep then [] # String_split sep cs
      else (case String_split sep cs of
              piece # pieces \<Rightarrow> (c # piece) # pieces
            | [] \<Rightarrow> [[c]]))"

text \<open>
  \<^verbatim>\<open>Array.prototype.map\<close> with a callback that may throw: the elements in order, and the
  first exception ends the call.
\<close>

fun Array_map :: "('a \<Rightarrow> 'x + 'b) \<Rightarrow> 'a list \<Rightarrow> 'x + 'b list" where
  "Array_map f [] = Inr []"
| "Array_map f (x # xs) =
     (case f x of
        Inl e \<Rightarrow> Inl e
      | Inr y \<Rightarrow> (case Array_map f xs of Inl e \<Rightarrow> Inl e | Inr ys \<Rightarrow> Inr (y # ys)))"

text \<open>\<^verbatim>\<open>row[i]\<close>: \<^verbatim>\<open>undefined\<close> (\<open>None\<close>) beyond the end of the array.\<close>

definition index :: "'a list \<Rightarrow> nat \<Rightarrow> 'a option" where
  "index row i = (if i < length row then Some (row ! i) else None)"

text \<open>\<^verbatim>\<open>ToString\<close> of a string or \<^verbatim>\<open>undefined\<close>, as \<^verbatim>\<open>parseInt\<close> applies it to its argument.\<close>

definition ToString :: "string option \<Rightarrow> string" where
  "ToString v = (case v of None \<Rightarrow> ''undefined'' | Some s \<Rightarrow> s)"

text \<open>
  \<^verbatim>\<open>parseInt(string)\<close> with no radix: leading white space is dropped, then a sign, then
  \<^verbatim>\<open>0x\<close> or \<^verbatim>\<open>0X\<close> selects radix 16 (radix 10 otherwise), and the longest run of digits of
  the radix is read; with no digit the result is \<^verbatim>\<open>NaN\<close>. It never throws. \<open>Num i\<close>
  is the number nearest to the integer \<open>i\<close> (\<open>i\<close> itself below \<open>2^53\<close>). A \<open>char\<close> is a
  code unit below 256, and the white space is what the language's list has there: tab,
  line feed, vertical tab, form feed, carriage return, space and the no-break space.
\<close>

datatype number = NaN | Num int

definition isWhiteSpace :: "char \<Rightarrow> bool" where
  "isWhiteSpace c \<longleftrightarrow>
     c \<in> set [CHR 0x09, CHR 0x0A, CHR 0x0B, CHR 0x0C, CHR 0x0D, CHR 0x20, CHR 0xA0]"

definition radixDigit :: "nat \<Rightarrow> char \<Rightarrow> nat option" where
  "radixDigit R c =
     (let n = (of_char c :: nat);
          v = (if 48 \<le> n \<and> n \<le> 57 then Some (n - 48)
               else if 97 \<le> n \<and> n \<le> 122 then Some (n - 87)
               else if 65 \<le> n \<and> n \<le> 90 then Some (n - 55)
               else None)
      in case v of None \<Rightarrow> None | Some d \<Rightarrow> if d < R then Some d else None)"

definition parseInt :: "string \<Rightarrow> number" where
  "parseInt inputString =
     (let S = dropWhile isWhiteSpace inputString;
          sign = (if take 1 S = ''-'' then - 1 else (1 :: int));
          S1 = (if take 1 S = ''-'' \<or> take 1 S = ''+'' then drop 1 S else S);
          hex = (take 2 S1 = ''0x'' \<or> take 2 S1 = ''0X'');
          R = (if hex then 16 else 10);
          S2 = (if hex then drop 2 S1 else S1);
          Z = takeWhile (\<lambda>c. radixDigit R c \<noteq> None) S2
      in if Z = [] then NaN
         else Num (sign * int (foldl (\<lambda>acc c. acc * R + (case radixDigit R c of Some d \<Rightarrow> d | None \<Rightarrow> 0)) 0 Z)))"

section \<open>CsvFileReader and MatchReader\<close>

record 'T CsvFileReader =
  filename :: string
  data :: "'T list"

text \<open>
  \<^verbatim>\<open>read()\<close>, for the \<^verbatim>\<open>mapRow\<close> of the subclass. The assignment to \<^verbatim>\<open>this.data\<close> is the
  last step: when reading the file or decoding a row throws, the reader is left as it
  was and the exception is the result.
\<close>

definition CsvFileReader_read ::
  "(string list \<Rightarrow> 'x + 'T) \<Rightarrow> filesystem \<Rightarrow> 'T CsvFileReader \<Rightarrow> 'x exn + 'T CsvFileReader" where
  "CsvFileReader_read mapRow fs this =
     (case readFileSync (filename this) fs of
        Inl e \<Rightarrow> Inl e
      | Inr text \<Rightarrow>
          (case Array_map mapRow
                  (map (\<lambda>row. String_split CHR '','' row) (String_split CHR 0x0A text)) of
             Inl e \<Rightarrow> Inl (Thrown e)
           | Inr rows \<Rightarrow> Inr (this\<lparr>data := rows\<rparr>)))"

text \<open>
  \<^verbatim>\<open>MatchReader.mapRow\<close>. \<^verbatim>\<open>dateStringToDate\<close> of \<^verbatim>\<open>utils\<close> is not among the sources: it is a
  parameter, and it may throw. Nothing else in the tuple can: \<^verbatim>\<open>row[i]\<close> is \<^verbatim>\<open>undefined\<close>
  where the row is short, \<^verbatim>\<open>parseInt\<close> returns \<^verbatim>\<open>NaN\<close>, and \<^verbatim>\<open>as MatchResult\<close> is erased
  at run time. So the text positions of the tuple built here hold \<open>string option\<close>.
\<close>

definition MatchReader_mapRow ::
  "(string option \<Rightarrow> 'x + 'd) \<Rightarrow> string list \<Rightarrow> 'x + ('d, number, string option) MatchTuple" where
  "MatchReader_mapRow dateStringToDate row =
     (case dateStringToDate (index row 0) of
        Inl e \<Rightarrow> Inl e
      | Inr date \<Rightarrow>
          Inr (date,
               index row 1,
               index row 2,
               parseInt (ToString (index row 3)),
               parseInt (ToString (index row 4)),
               index row 5,
               index row 6))"

section \<open>HTMLReport\<close>

definition HTMLReport_html :: "string \<Rightarrow> string" where
  "HTMLReport_html report =
     ''\<newline>        <div>\<newline>            <h1>Analysis Output</h1>\<newline>            <div>''
     @ report
     @ ''</div>\<newline>        </div>\<newline>        ''"

definition HTMLReport_print :: "string \<Rightarrow> filesystem \<Rightarrow> 'x exn + filesystem" where
  "HTMLReport_print report fs =
     (let html = HTMLReport_html report
      in writeFileSync ''./report.html'' html fs)"

section \<open>Summary\<close>

text \<open>
  The two interfaces. An implementation is any JavaScript method: it may change the
  world \<open>'w\<close> it runs in and it may throw \<open>'x\<close>.
\<close>

type_synonym ('d, 'n, 'w, 'x) Analyzer = "('d, 'n) MatchData list \<Rightarrow> 'w \<Rightarrow> 'x + string \<times> 'w"

type_synonym ('w, 'x) OutputTarget = "string \<Rightarrow> 'w \<Rightarrow> 'x + 'w"

record ('d, 'n, 'w, 'x) Summary =
  analyzer :: "('d, 'n, 'w, 'x) Analyzer"
  outputTarget :: "('w, 'x) OutputTarget"

definition Summary_buildAndPrintReport ::
  "('d, 'n, 'w, 'x) Summary \<Rightarrow> ('d, 'n) MatchData list \<Rightarrow> 'w \<Rightarrow> 'x + 'w" where
  "Summary_buildAndPrintReport this matches w =
     (case analyzer this matches w of
        Inl e \<Rightarrow> Inl e
      | Inr (report, w') \<Rightarrow> outputTarget this report w')"

text \<open>\<^verbatim>\<open>new WinsAnalysis(team)\<close> and \<^verbatim>\<open>new HTMLReport()\<close> as implementations of the interfaces.\<close>

definition WinsAnalysis :: "string \<Rightarrow> ('d, 'n, 'w, 'x) Analyzer" where
  "WinsAnalysis team = (\<lambda>matches w. Inr (WinsAnalysis_run team matches, w))"

definition HTMLReport :: "(filesystem, 'x exn) OutputTarget" where
  "HTMLReport = HTMLReport_print"

definition Summary_winsAnalysisWithHtmlReport ::
  "string \<Rightarrow> ('d, 'n, filesystem, 'x exn) Summary" where
  "Summary_winsAnalysisWithHtmlReport teamName =
     \<lparr>analyzer = WinsAnalysis teamName, outputTarget = HTMLReport\<rparr>"

section \<open>Properties of the loop\<close>

declare numberToString.simps [simp del]

lemma countWins_filter: "countWins team ms k = k + length (filter (isWinFor team) ms)"
proof (induction ms arbitrary: k)
  case Nil
  show ?case by simp
next
  case (Cons m ms)
  show ?case
    by (simp add: Cons.IH isWinFor_def)
qed

lemma digitsValue_snoc: "digitsValue (s @ [c]) = 10 * digitsValue s + (of_char c - 48)"
  by (simp add: digitsValue_def)

lemma of_char_digitChar: "d < 10 \<Longrightarrow> (of_char (digitChar d) :: nat) = 48 + d"
  by (simp add: digitChar_def)

lemma numberToString_value: "digitsValue (numberToString n) = n"
proof (induction n rule: numberToString.induct)
  case (1 n)
  show ?case
  proof (cases "n < 10")
    case True
    then show ?thesis
      by (simp add: numberToString.simps [of n] digitsValue_def of_char_digitChar)
  next
    case False
    have "digitsValue (numberToString n) =
            10 * digitsValue (numberToString (n div 10)) + (of_char (digitChar (n mod 10)) - 48)"
      using False by (simp add: numberToString.simps [of n] digitsValue_snoc)
    also have "\<dots> = 10 * (n div 10) + n mod 10"
      using "1.IH" [OF False] by (simp add: of_char_digitChar)
    finally show ?thesis by simp
  qed
qed

lemma digitChar_0: "digitChar 0 = CHR ''0''"
  unfolding digitChar_def by code_simp

lemma numberToString_0: "numberToString 0 = ''0''"
  by (simp add: numberToString.simps [of 0] digitChar_0)

lemma digitChar_in_digits: "d < 10 \<Longrightarrow> digitChar d \<in> set ''0123456789''"
proof -
  assume "d < 10"
  then have "of_char (digitChar d) = 48 + d"
    by (rule of_char_digitChar)
  moreover have "d \<in> {0, 1, 2, 3, 4, 5, 6, 7, 8, 9}"
    using \<open>d < 10\<close> by auto
  ultimately have "(of_char (digitChar d) :: nat) \<in> of_char ` set ''0123456789''"
    by auto
  then show ?thesis
    by (auto simp del: of_char_Char)
qed

lemma numberToString_not_Nil: "numberToString n \<noteq> []"
  by (simp add: numberToString.simps [of n])

lemma numberToString_digits: "set (numberToString n) \<subseteq> set ''0123456789''"
proof (induction n rule: numberToString.induct)
  case (1 n)
  show ?case
  proof (cases "n < 10")
    case True
    then show ?thesis
      using digitChar_in_digits [of n] by (simp add: numberToString.simps [of n])
  next
    case False
    have "numberToString n = numberToString (n div 10) @ [digitChar (n mod 10)]"
      using False by (simp add: numberToString.simps [of n])
    then show ?thesis
      using "1.IH" [OF False] digitChar_in_digits [of "n mod 10"] by simp
  qed
qed

lemma digitChar_eq_0: "d < 10 \<Longrightarrow> digitChar d = CHR ''0'' \<longleftrightarrow> d = 0"
proof -
  assume "d < 10"
  then have "(of_char (digitChar d) :: nat) = 48 + d"
    by (rule of_char_digitChar)
  then show ?thesis
    by (auto simp: digitChar_0)
qed

lemma numberToString_leading: "hd (numberToString n) = CHR ''0'' \<longleftrightarrow> n = 0"
proof (induction n rule: numberToString.induct)
  case (1 n)
  show ?case
  proof (cases "n < 10")
    case True
    then show ?thesis
      by (simp add: numberToString.simps [of n] digitChar_eq_0)
  next
    case False
    have "hd (numberToString n) = hd (numberToString (n div 10))"
      using False by (simp add: numberToString.simps [of n] numberToString_not_Nil)
    then show ?thesis
      using "1.IH" [OF False] False by simp
  qed
qed

lemma length_filter_mset: "mset xs = mset ys \<Longrightarrow> length (filter P xs) = length (filter P ys)"
proof -
  assume eq: "mset xs = mset ys"
  have "size (filter_mset P (mset xs)) = size (filter_mset P (mset ys))"
    by (simp add: eq)
  then show ?thesis
    by (simp flip: mset_filter)
qed

section \<open>WinsAnalysis: the claims\<close>

text \<open>
  C1. For every list of match records and every team name, the count that
  \<^verbatim>\<open>WinsAnalysis.run\<close> reports is the number of records of the list with
  (home team = team and result = HomeWin) or (away team = team and result = AwayWin),
  the comparison being equality of strings: the counter of the loop is that number,
  and the summary returned is built from it.
\<close>

theorem WinsAnalysis_run_counts_wins:
  "countWins team matches 0 = length (filter (isWinFor team) matches) \<and>
   WinsAnalysis_run team matches =
     team @ '' won '' @ numberToString (length (filter (isWinFor team) matches)) @ '' games''"
  by (simp add: WinsAnalysis_run_def countWins_filter)

text \<open>
  C2. The summary is exactly \<^verbatim>\<open><team> won <count> games\<close>, where the count is the win
  count, the number of records of the list that are wins of the team, written in
  decimal: digits only, which read back give that number, and no leading zero but for
  the count 0. For the empty list it is \<^verbatim>\<open><team> won 0 games\<close>.
\<close>

theorem WinsAnalysis_run_format:
  "WinsAnalysis_run team matches =
     team @ '' won '' @ numberToString (length (filter (isWinFor team) matches)) @ '' games'' \<and>
   digitsValue (numberToString (length (filter (isWinFor team) matches)))
     = length (filter (isWinFor team) matches) \<and>
   set (numberToString (length (filter (isWinFor team) matches))) \<subseteq> set ''0123456789'' \<and>
   (hd (numberToString (length (filter (isWinFor team) matches))) = CHR ''0'')
     = (length (filter (isWinFor team) matches) = 0) \<and>
   WinsAnalysis_run team [] = team @ '' won 0 games''"
proof -
  have count: "countWins team matches 0 = length (filter (isWinFor team) matches)"
    by (simp add: countWins_filter)
  have shape: "WinsAnalysis_run team matches =
      team @ '' won '' @ numberToString (length (filter (isWinFor team) matches)) @ '' games''"
    by (simp add: WinsAnalysis_run_def count)
  have empty: "WinsAnalysis_run team [] = team @ '' won 0 games''"
    by (simp add: WinsAnalysis_run_def numberToString_0)
  show ?thesis
    using shape empty numberToString_value numberToString_digits numberToString_leading
    by blast
qed

text \<open>
  C5. The summary does not depend on the order of the records: two lists that are
  permutations of each other (the same multiset of records) give the same string.
\<close>

theorem WinsAnalysis_run_permutation:
  "mset matches' = mset matches \<Longrightarrow> WinsAnalysis_run team matches' = WinsAnalysis_run team matches"
proof -
  assume perm: "mset matches' = mset matches"
  have "countWins team matches' 0 = countWins team matches 0"
    using length_filter_mset [OF perm, of "isWinFor team"] by (simp add: countWins_filter)
  then show ?thesis
    by (simp add: WinsAnalysis_run_def)
qed

theorem WinsAnalysis_run_permutation_witness:
  "mset [(''11/08/2018'', ''Watford'', ''Brighton'', 2 :: nat, 0 :: nat, ''H'', ''J Moss''),
         (''10/08/2018'', ''Man United'', ''Leicester'', 2 :: nat, 1 :: nat, ''H'', ''A Marriner'')]
   = mset [(''10/08/2018'', ''Man United'', ''Leicester'', 2 :: nat, 1 :: nat, ''H'', ''A Marriner''),
           (''11/08/2018'', ''Watford'', ''Brighton'', 2 :: nat, 0 :: nat, ''H'', ''J Moss'')] \<and>
   WinsAnalysis_run ''Man United''
     [(''11/08/2018'', ''Watford'', ''Brighton'', 2 :: nat, 0 :: nat, ''H'', ''J Moss''),
      (''10/08/2018'', ''Man United'', ''Leicester'', 2 :: nat, 1 :: nat, ''H'', ''A Marriner'')]
   = WinsAnalysis_run ''Man United''
     [(''10/08/2018'', ''Man United'', ''Leicester'', 2 :: nat, 1 :: nat, ''H'', ''A Marriner''),
      (''11/08/2018'', ''Watford'', ''Brighton'', 2 :: nat, 0 :: nat, ''H'', ''J Moss'')]"
proof -
  have perm:
    "mset [(''11/08/2018'', ''Watford'', ''Brighton'', 2 :: nat, 0 :: nat, ''H'', ''J Moss''),
           (''10/08/2018'', ''Man United'', ''Leicester'', 2 :: nat, 1 :: nat, ''H'', ''A Marriner'')]
     = mset [(''10/08/2018'', ''Man United'', ''Leicester'', 2 :: nat, 1 :: nat, ''H'', ''A Marriner''),
             (''11/08/2018'', ''Watford'', ''Brighton'', 2 :: nat, 0 :: nat, ''H'', ''J Moss'')]"
    by simp
  show ?thesis
    using perm WinsAnalysis_run_permutation [OF perm, of "''Man United''"] by simp
qed

text \<open>
  C6. A record in which the team is neither the home team nor the away team never
  counts: appending it to a list, or inserting it anywhere in a list, leaves the count
  and the summary as they were.
\<close>

theorem WinsAnalysis_ignores_other_teams:
  "at1 m \<noteq> team \<Longrightarrow> at2 m \<noteq> team \<Longrightarrow>
     countWins team (matches @ [m]) 0 = countWins team matches 0 \<and>
     countWins team (matches @ m # rest) 0 = countWins team (matches @ rest) 0 \<and>
     WinsAnalysis_run team (matches @ [m]) = WinsAnalysis_run team matches"
  by (simp add: WinsAnalysis_run_def countWins_filter isWinFor_def)

theorem WinsAnalysis_ignores_other_teams_witness:
  "at1 (''11/08/2018'', ''Watford'', ''Brighton'', 2 :: nat, 0 :: nat, ''H'', ''J Moss'') \<noteq> ''Man United'' \<and>
   at2 (''11/08/2018'', ''Watford'', ''Brighton'', 2 :: nat, 0 :: nat, ''H'', ''J Moss'') \<noteq> ''Man United'' \<and>
   countWins ''Man United''
     ([(''10/08/2018'', ''Man United'', ''Leicester'', 2 :: nat, 1 :: nat, ''H'', ''A Marriner'')]
      @ [(''11/08/2018'', ''Watford'', ''Brighton'', 2 :: nat, 0 :: nat, ''H'', ''J Moss'')]) 0 = 1 \<and>
   WinsAnalysis_run ''Man United''
     ([(''10/08/2018'', ''Man United'', ''Leicester'', 2 :: nat, 1 :: nat, ''H'', ''A Marriner'')]
      @ [(''11/08/2018'', ''Watford'', ''Brighton'', 2 :: nat, 0 :: nat, ''H'', ''J Moss'')])
   = ''Man United won 1 games''"
proof -
  have h1: "at1 (''11/08/2018'', ''Watford'', ''Brighton'', 2 :: nat, 0 :: nat, ''H'', ''J Moss'') \<noteq> ''Man United''"
    by (simp add: at1_def)
  have h2: "at2 (''11/08/2018'', ''Watford'', ''Brighton'', 2 :: nat, 0 :: nat, ''H'', ''J Moss'') \<noteq> ''Man United''"
    by (simp add: at2_def)
  have d1: "digitChar (Suc 0) = CHR ''1''"
    unfolding digitChar_def by code_simp
  show ?thesis
    using h1 h2
      WinsAnalysis_ignores_other_teams [OF h1 h2,
        of "[(''10/08/2018'', ''Man United'', ''Leicester'', 2 :: nat, 1 :: nat, ''H'', ''A Marriner'')]" "[]"]
    by (simp add: WinsAnalysis_run_def at1_def at2_def at5_def HomeWin_def AwayWin_def
        numberToString.simps [of "Suc 0"] d1)
qed

text \<open>
  C9. The count over a concatenation is the sum of the counts over the two parts.
\<close>

theorem countWins_concat:
  "countWins team (xs @ ys) 0 = countWins team xs 0 + countWins team ys 0"
  by (simp add: countWins_filter)

section \<open>Properties of the reader's building blocks\<close>

lemma String_split_not_Nil: "String_split sep s \<noteq> []"
  by (induction s) (auto split: list.splits)

lemma length_String_split: "length (String_split sep s) = Suc (count_list s sep)"
proof (induction s)
  case Nil
  show ?case by simp
next
  case (Cons c cs)
  obtain piece pieces where sp: "String_split sep cs = piece # pieces"
    using String_split_not_Nil [of sep cs] by (cases "String_split sep cs") auto
  show ?case
    using Cons.IH by (simp add: sp)
qed

lemma String_split_snoc_sep: "String_split sep (s @ [sep]) = String_split sep s @ [[]]"
proof (induction s)
  case Nil
  show ?case by simp
next
  case (Cons c cs)
  obtain piece pieces where sp: "String_split sep cs = piece # pieces"
    using String_split_not_Nil [of sep cs] by (cases "String_split sep cs") auto
  show ?case
    using Cons.IH by (simp add: sp)
qed

lemma Array_map_Inr: "Array_map f xs = Inr ys \<Longrightarrow> list_all2 (\<lambda>x y. f x = Inr y) xs ys"
proof (induction xs arbitrary: ys)
  case Nil
  then show ?case by simp
next
  case (Cons x xs)
  then show ?case
    by (auto split: sum.splits)
qed

lemma Array_map_Inl: "x \<in> set xs \<Longrightarrow> f x = Inl e \<Longrightarrow> \<exists>e'. Array_map f xs = Inl e'"
proof (induction xs)
  case Nil
  then show ?case by simp
next
  case (Cons y ys)
  then show ?case
    by (cases "f y"; cases "Array_map f ys") auto
qed

lemma list_all2_last:
  assumes "list_all2 P (xs @ [x]) ys"
  shows "P x (last ys)"
proof -
  have len: "length ys = Suc (length xs)"
    using list_all2_lengthD [OF assms] by simp
  have "P ((xs @ [x]) ! length xs) (ys ! length xs)"
    using assms by (rule list_all2_nthD) simp
  moreover have "ys \<noteq> []"
    using len by auto
  then have "last ys = ys ! length xs"
    by (simp add: last_conv_nth len)
  ultimately show ?thesis by simp
qed

lemma CsvFileReader_read_Inr:
  assumes "files fs (filename this) = Some contents"
    and "CsvFileReader_read mapRow fs this = Inr this'"
  shows "list_all2 (\<lambda>row record. mapRow row = Inr record)
           (map (String_split CHR '','') (String_split CHR 0x0A contents)) (data this')"
proof -
  obtain rows where
    rows: "Array_map mapRow (map (String_split CHR '','') (String_split CHR 0x0A contents)) = Inr rows"
    and this': "this' = this\<lparr>data := rows\<rparr>"
    using assms by (auto simp: CsvFileReader_read_def readFileSync_def split: sum.splits)
  show ?thesis
    using Array_map_Inr [OF rows] by (simp add: this')
qed

section \<open>The reader: the claims\<close>

text \<open>
  C3, as the code has it. \<^verbatim>\<open>mapRow\<close> validates nothing itself: it fails exactly when
  \<^verbatim>\<open>dateStringToDate\<close> throws on \<^verbatim>\<open>row[0]\<close>, with that exception; otherwise it returns a
  tuple that holds \<^verbatim>\<open>row[5]\<close> as it is, whatever the token, and the values of \<^verbatim>\<open>parseInt\<close>
  for the goals (\<^verbatim>\<open>NaN\<close> for text with no leading digits). When the decoding of some row
  of the file does throw, \<^verbatim>\<open>read\<close> as a whole fails and assigns no records.
\<close>

theorem MatchReader_mapRow_unchecked:
  "(dateStringToDate (index row 0) = Inr date \<longrightarrow>
      MatchReader_mapRow dateStringToDate row =
        Inr (date, index row 1, index row 2,
             parseInt (ToString (index row 3)), parseInt (ToString (index row 4)),
             index row 5, index row 6)) \<and>
   (dateStringToDate (index row 0) = Inl e \<longrightarrow>
      MatchReader_mapRow dateStringToDate row = Inl e) \<and>
   (files fs (filename this) = Some contents \<longrightarrow>
      r \<in> set (map (String_split CHR '','') (String_split CHR 0x0A contents)) \<longrightarrow>
      mapRow r = Inl e' \<longrightarrow>
      (\<exists>e''. CsvFileReader_read mapRow fs this = Inl (Thrown e'')))"
proof (intro conjI impI)
  assume "dateStringToDate (index row 0) = Inr date"
  then show "MatchReader_mapRow dateStringToDate row =
        Inr (date, index row 1, index row 2,
             parseInt (ToString (index row 3)), parseInt (ToString (index row 4)),
             index row 5, index row 6)"
    by (simp add: MatchReader_mapRow_def)
next
  assume "dateStringToDate (index row 0) = Inl e"
  then show "MatchReader_mapRow dateStringToDate row = Inl e"
    by (simp add: MatchReader_mapRow_def)
next
  assume src: "files fs (filename this) = Some contents"
    and r: "r \<in> set (map (String_split CHR '','') (String_split CHR 0x0A contents))"
    and bad: "mapRow r = Inl e'"
  have "\<exists>e''. Array_map mapRow (map (String_split CHR '','') (String_split CHR 0x0A contents)) = Inl e''"
    using r bad by (rule Array_map_Inl)
  then obtain e'' where
    "Array_map mapRow (map (String_split CHR '','') (String_split CHR 0x0A contents)) = Inl e''"
    by blast
  then show "\<exists>e''. CsvFileReader_read mapRow fs this = Inl (Thrown e'')"
    by (simp add: CsvFileReader_read_def readFileSync_def src)
qed

theorem MatchReader_mapRow_unchecked_witness:
  "MatchReader_mapRow (Inr :: string option \<Rightarrow> string + string option)
       [''10/08/2018'', ''Man United'', ''Leicester'', ''2'', ''1'', ''home'', ''A Marriner'']
     = Inr (Some ''10/08/2018'', Some ''Man United'', Some ''Leicester'', Num 2, Num 1,
            Some ''home'', Some ''A Marriner'') \<and>
   MatchReader_mapRow (\<lambda>v. Inl ''Invalid Date'' :: string + string option)
       [''yesterday'', ''Man United'', ''Leicester'', ''2'', ''1'', ''H'', ''A Marriner'']
     = Inl ''Invalid Date'' \<and>
   (\<exists>e. CsvFileReader_read
          (MatchReader_mapRow (\<lambda>v. Inl ''Invalid Date'' :: string + string option))
          \<lparr>files = [''football.csv'' \<mapsto> ''yesterday,Man United,Leicester,2,1,H,A Marriner''],
           denied = {}\<rparr>
          \<lparr>filename = ''football.csv'', data = []\<rparr>
        = Inl (Thrown e))"
proof -
  have a: "MatchReader_mapRow (Inr :: string option \<Rightarrow> string + string option)
       [''10/08/2018'', ''Man United'', ''Leicester'', ''2'', ''1'', ''home'', ''A Marriner'']
     = Inr (Some ''10/08/2018'', Some ''Man United'', Some ''Leicester'', Num 2, Num 1,
            Some ''home'', Some ''A Marriner'')"
    using MatchReader_mapRow_unchecked
      [where dateStringToDate = "Inr :: string option \<Rightarrow> string + string option"
         and row = "[''10/08/2018'', ''Man United'', ''Leicester'', ''2'', ''1'', ''home'', ''A Marriner'']"
         and date = "Some ''10/08/2018''"
         and e = "''Invalid Date''"
         and fs = "\<lparr>files = Map.empty, denied = {}\<rparr>"
         and this = "\<lparr>filename = ''football.csv'', data = []\<rparr>"
         and contents = "[]"
         and r = "[]"
         and mapRow = "MatchReader_mapRow (Inr :: string option \<Rightarrow> string + string option)"
         and e' = "''Invalid Date''"]
    by (simp add: index_def ToString_def parseInt_def isWhiteSpace_def radixDigit_def)
  have b: "MatchReader_mapRow (\<lambda>v. Inl ''Invalid Date'' :: string + string option)
       [''yesterday'', ''Man United'', ''Leicester'', ''2'', ''1'', ''H'', ''A Marriner'']
     = Inl ''Invalid Date''
     \<and> (\<exists>e. CsvFileReader_read
          (MatchReader_mapRow (\<lambda>v. Inl ''Invalid Date'' :: string + string option))
          \<lparr>files = [''football.csv'' \<mapsto> ''yesterday,Man United,Leicester,2,1,H,A Marriner''],
           denied = {}\<rparr>
          \<lparr>filename = ''football.csv'', data = []\<rparr>
        = Inl (Thrown e))"
    using MatchReader_mapRow_unchecked
      [where dateStringToDate = "\<lambda>v. Inl ''Invalid Date'' :: string + string option"
         and row = "[''yesterday'', ''Man United'', ''Leicester'', ''2'', ''1'', ''H'', ''A Marriner'']"
         and e = "''Invalid Date''"
         and fs = "\<lparr>files = [''football.csv'' \<mapsto> ''yesterday,Man United,Leicester,2,1,H,A Marriner''],
                    denied = {}\<rparr>"
         and this = "\<lparr>filename = ''football.csv'', data = []\<rparr>"
         and contents = "''yesterday,Man United,Leicester,2,1,H,A Marriner''"
         and r = "[''yesterday'', ''Man United'', ''Leicester'', ''2'', ''1'', ''H'', ''A Marriner'']"
         and mapRow = "MatchReader_mapRow (\<lambda>v. Inl ''Invalid Date'' :: string + string option)"
         and e' = "''Invalid Date''"]
    by (simp add: MatchReader_mapRow_def)
  show ?thesis
    using a b by simp
qed

text \<open>
  The claim as the specification states it fails on the code: a row whose goals field is
  not a number and whose result token is \<^verbatim>\<open>X\<close> is decoded into a tuple, and a file holding
  it is loaded with that tuple among the records.
\<close>

theorem MatchReader_mapRow_accepts_bad_fields:
  "MatchReader_mapRow (Inr :: string option \<Rightarrow> unit + string option)
       [''10/08/2018'', ''Man United'', ''Leicester'', ''two'', ''1'', ''X'', ''A Marriner'']
     = Inr (Some ''10/08/2018'', Some ''Man United'', Some ''Leicester'', NaN, Num 1,
            Some ''X'', Some ''A Marriner'') \<and>
   CsvFileReader_read (MatchReader_mapRow (Inr :: string option \<Rightarrow> unit + string option))
       \<lparr>files = [''football.csv'' \<mapsto> ''10/08/2018,Man United,Leicester,two,1,X,A Marriner''],
        denied = {}\<rparr>
       \<lparr>filename = ''football.csv'', data = []\<rparr>
     = Inr \<lparr>filename = ''football.csv'',
            data = [(Some ''10/08/2018'', Some ''Man United'', Some ''Leicester'', NaN, Num 1,
                     Some ''X'', Some ''A Marriner'')]\<rparr>"
  by (simp add: CsvFileReader_read_def readFileSync_def MatchReader_mapRow_def index_def
      ToString_def parseInt_def isWhiteSpace_def radixDigit_def)


text \<open>
  C4, as the code has it. \<^verbatim>\<open>read\<close> filters nothing: every piece of the split on the
  newline, the empty ones included, is split on the comma and handed to the decoder.
  When \<^verbatim>\<open>read\<close> succeeds, the records are as many as the newlines of the file plus one,
  each record is the decoding of the line at its position, and for a file that ends
  with a newline the last record is the decoding of the row \<^verbatim>\<open>[""]\<close>.
\<close>

theorem CsvFileReader_read_decodes_every_line:
  "files fs (filename this) = Some contents \<Longrightarrow>
   CsvFileReader_read mapRow fs this = Inr this' \<Longrightarrow>
     length (data this') = Suc (count_list contents CHR 0x0A) \<and>
     list_all2 (\<lambda>row record. mapRow row = Inr record)
       (map (String_split CHR '','') (String_split CHR 0x0A contents)) (data this') \<and>
     (\<forall>body. contents = body @ [CHR 0x0A] \<longrightarrow> mapRow [''''] = Inr (last (data this')))"
proof -
  assume src: "files fs (filename this) = Some contents"
    and ok: "CsvFileReader_read mapRow fs this = Inr this'"
  have all: "list_all2 (\<lambda>row record. mapRow row = Inr record)
       (map (String_split CHR '','') (String_split CHR 0x0A contents)) (data this')"
    using src ok by (rule CsvFileReader_read_Inr)
  have len: "length (data this') = Suc (count_list contents CHR 0x0A)"
    using list_all2_lengthD [OF all] by (simp add: length_String_split)
  have "mapRow [''''] = Inr (last (data this'))" if "contents = body @ [CHR 0x0A]" for body
  proof -
    have "map (String_split CHR '','') (String_split CHR 0x0A contents)
            = map (String_split CHR '','') (String_split CHR 0x0A body) @ [['''']]"
      by (simp add: that String_split_snoc_sep)
    then show ?thesis
      using all list_all2_last
        [of "\<lambda>row record. mapRow row = Inr record"
            "map (String_split CHR '','') (String_split CHR 0x0A body)" "['''']" "data this'"]
      by simp
  qed
  then show ?thesis
    using all len by blast
qed

theorem CsvFileReader_read_decodes_every_line_witness:
  "files \<lparr>files = [''football.csv'' \<mapsto> ''a,b\<newline>''], denied = {}\<rparr>
       (filename \<lparr>filename = ''football.csv'', data = ([] :: string list list)\<rparr>) = Some ''a,b\<newline>'' \<and>
   CsvFileReader_read (Inr :: string list \<Rightarrow> unit + string list)
       \<lparr>files = [''football.csv'' \<mapsto> ''a,b\<newline>''], denied = {}\<rparr>
       \<lparr>filename = ''football.csv'', data = []\<rparr>
     = Inr \<lparr>filename = ''football.csv'', data = [[''a'', ''b''], ['''']]\<rparr> \<and>
   length (data \<lparr>filename = ''football.csv'', data = [[''a'', ''b''], ['''']]\<rparr>)
     = Suc (count_list ''a,b\<newline>'' CHR 0x0A) \<and>
   (Inr :: string list \<Rightarrow> unit + string list) ['''']
     = Inr (last (data \<lparr>filename = ''football.csv'', data = [[''a'', ''b''], ['''']]\<rparr>))"
proof -
  have src: "files \<lparr>files = [''football.csv'' \<mapsto> ''a,b\<newline>''], denied = {}\<rparr>
       (filename \<lparr>filename = ''football.csv'', data = ([] :: string list list)\<rparr>) = Some ''a,b\<newline>''"
    by simp
  have ok: "CsvFileReader_read (Inr :: string list \<Rightarrow> unit + string list)
       \<lparr>files = [''football.csv'' \<mapsto> ''a,b\<newline>''], denied = {}\<rparr>
       \<lparr>filename = ''football.csv'', data = []\<rparr>
     = Inr \<lparr>filename = ''football.csv'', data = [[''a'', ''b''], ['''']]\<rparr>"
    by (simp add: CsvFileReader_read_def readFileSync_def)
  show ?thesis
    using src ok CsvFileReader_read_decodes_every_line [OF src ok] by simp
qed

text \<open>
  The claim as the specification states it fails on the code: for a file of one match and
  a final newline, the rows handed to the decoder (seen with a decoder that returns its
  row) end with the empty row, and \<^verbatim>\<open>mapRow\<close> turns it into a second record, with an
  empty date text, no teams, \<^verbatim>\<open>NaN\<close> goals and no result.
\<close>

theorem CsvFileReader_read_decodes_empty_row:
  "CsvFileReader_read (Inr :: string list \<Rightarrow> unit + string list)
       \<lparr>files = [''football.csv'' \<mapsto> ''10/08/2018,Man United,Leicester,2,1,H,A Marriner\<newline>''],
        denied = {}\<rparr>
       \<lparr>filename = ''football.csv'', data = []\<rparr>
     = Inr \<lparr>filename = ''football.csv'',
            data = [[''10/08/2018'', ''Man United'', ''Leicester'', ''2'', ''1'', ''H'', ''A Marriner''],
                    ['''']]\<rparr> \<and>
   CsvFileReader_read (MatchReader_mapRow (Inr :: string option \<Rightarrow> unit + string option))
       \<lparr>files = [''football.csv'' \<mapsto> ''10/08/2018,Man United,Leicester,2,1,H,A Marriner\<newline>''],
        denied = {}\<rparr>
       \<lparr>filename = ''football.csv'', data = []\<rparr>
     = Inr \<lparr>filename = ''football.csv'',
            data = [(Some ''10/08/2018'', Some ''Man United'', Some ''Leicester'', Num 2, Num 1,
                     Some ''H'', Some ''A Marriner''),
                    (Some '''', None, None, NaN, NaN, None, None)]\<rparr>"
  by (simp add: CsvFileReader_read_def readFileSync_def MatchReader_mapRow_def index_def
      ToString_def parseInt_def isWhiteSpace_def radixDigit_def)


section \<open>HTMLReport: the claims\<close>

lemma HTMLReport_print_Inr:
  "HTMLReport_print report fs = Inr fs' \<longleftrightarrow>
     ''./report.html'' \<notin> denied fs \<and>
     fs' = fs\<lparr>files := (files fs)(''./report.html'' \<mapsto> HTMLReport_html report)\<rparr>"
  by (auto simp: HTMLReport_print_def writeFileSync_def)

lemma HTMLReport_print_Inl:
  "HTMLReport_print report fs = Inl e \<longleftrightarrow>
     ''./report.html'' \<in> denied fs \<and> e = IOError ''./report.html''"
  by (auto simp: HTMLReport_print_def writeFileSync_def)

lemma HTMLReport_html_template:
  "HTMLReport_html report =
     (''\<newline>        <div>\<newline>            '' @ ''<h1>Analysis Output</h1>''
        @ ''\<newline>            <div>'')
     @ report @ ''</div>\<newline>        </div>\<newline>        ''"
  by (simp add: HTMLReport_html_def)

text \<open>
  C7. Where the write is not refused, \<^verbatim>\<open>print\<close> succeeds and leaves at
  \<^verbatim>\<open>./report.html\<close> the report wrapped in the fixed template: the same text before and
  after every report, with the heading before it, so the content holds the report and
  the heading as substrings. A second \<^verbatim>\<open>print\<close> succeeds as well and leaves exactly the
  wrapping of the second report, whatever the file held.
\<close>

theorem HTMLReport_print_wraps_and_overwrites:
  "''./report.html'' \<notin> denied fs \<Longrightarrow>
     (\<exists>fs'. HTMLReport_print report fs = (Inr fs' :: 'x exn + filesystem) \<and>
        files fs' ''./report.html'' = Some (HTMLReport_html report) \<and>
        (\<exists>fs''. HTMLReport_print report2 fs' = (Inr fs'' :: 'x exn + filesystem) \<and>
           files fs'' ''./report.html'' = Some (HTMLReport_html report2))) \<and>
     sublist report (HTMLReport_html report) \<and>
     sublist ''<h1>Analysis Output</h1>'' (HTMLReport_html report) \<and>
     (\<exists>before after. sublist ''<h1>Analysis Output</h1>'' before \<and>
        (\<forall>r. HTMLReport_html r = before @ r @ after))"
proof -
  assume free: "''./report.html'' \<notin> denied fs"
  let ?fs1 = "fs\<lparr>files := (files fs)(''./report.html'' \<mapsto> HTMLReport_html report)\<rparr>"
  let ?fs2 = "?fs1\<lparr>files := (files ?fs1)(''./report.html'' \<mapsto> HTMLReport_html report2)\<rparr>"
  have first: "HTMLReport_print report fs = (Inr ?fs1 :: 'x exn + filesystem)"
    using free by (simp add: HTMLReport_print_Inr)
  have second: "HTMLReport_print report2 ?fs1 = (Inr ?fs2 :: 'x exn + filesystem)"
    using free by (simp add: HTMLReport_print_Inr)
  have writes: "\<exists>fs'. HTMLReport_print report fs = (Inr fs' :: 'x exn + filesystem) \<and>
        files fs' ''./report.html'' = Some (HTMLReport_html report) \<and>
        (\<exists>fs''. HTMLReport_print report2 fs' = (Inr fs'' :: 'x exn + filesystem) \<and>
           files fs'' ''./report.html'' = Some (HTMLReport_html report2))"
  proof (intro exI conjI)
    show "HTMLReport_print report fs = (Inr ?fs1 :: 'x exn + filesystem)" by (rule first)
    show "files ?fs1 ''./report.html'' = Some (HTMLReport_html report)" by simp
    show "HTMLReport_print report2 ?fs1 = (Inr ?fs2 :: 'x exn + filesystem)" by (rule second)
    show "files ?fs2 ''./report.html'' = Some (HTMLReport_html report2)" by simp
  qed
  have rep: "sublist report (HTMLReport_html report)"
    unfolding HTMLReport_html_def by (rule sublist_appendI)
  have heading: "sublist ''<h1>Analysis Output</h1>''
      (''\<newline>        <div>\<newline>            '' @ ''<h1>Analysis Output</h1>''
        @ ''\<newline>            <div>'')"
    by (rule sublist_appendI)
  have heading': "sublist ''<h1>Analysis Output</h1>'' (HTMLReport_html report)"
    unfolding HTMLReport_html_template
    using heading by (rule sublist_order.order_trans) simp
  have template: "\<exists>before after. sublist ''<h1>Analysis Output</h1>'' before \<and>
        (\<forall>r. HTMLReport_html r = before @ r @ after)"
    using heading HTMLReport_html_template by blast
  show ?thesis
    using writes rep heading' template by blast
qed

theorem HTMLReport_print_wraps_and_overwrites_witness:
  "''./report.html'' \<notin> denied \<lparr>files = [''./report.html'' \<mapsto> ''old''], denied = {}\<rparr> \<and>
   (\<exists>fs'. HTMLReport_print ''X won 3 games'' \<lparr>files = [''./report.html'' \<mapsto> ''old''], denied = {}\<rparr>
            = (Inr fs' :: unit exn + filesystem) \<and>
      files fs' ''./report.html'' = Some (HTMLReport_html ''X won 3 games'') \<and>
      (\<exists>fs''. HTMLReport_print ''Y won 0 games'' fs' = (Inr fs'' :: unit exn + filesystem) \<and>
         files fs'' ''./report.html'' = Some (HTMLReport_html ''Y won 0 games''))) \<and>
   sublist ''X won 3 games'' (HTMLReport_html ''X won 3 games'') \<and>
   sublist ''<h1>Analysis Output</h1>'' (HTMLReport_html ''X won 3 games'')"
proof -
  have free: "''./report.html'' \<notin> denied \<lparr>files = [''./report.html'' \<mapsto> ''old''], denied = {}\<rparr>"
    by simp
  show ?thesis
    using free
      HTMLReport_print_wraps_and_overwrites
        [where 'x = unit, OF free, of "''X won 3 games''" "''Y won 0 games''"]
    by blast
qed

text \<open>
  C10. \<^verbatim>\<open>print\<close> touches the one path \<^verbatim>\<open>./report.html\<close>, whatever the report: when it
  succeeds, every other path holds what it held, the paths of the file system are the
  old ones and \<^verbatim>\<open>./report.html\<close>, and the refused paths are unchanged; when it fails, it
  is the write to \<^verbatim>\<open>./report.html\<close> that was refused and nothing is written.
\<close>

theorem HTMLReport_print_frame:
  "(HTMLReport_print report fs = Inr fs' \<longrightarrow>
      (\<forall>path. path \<noteq> ''./report.html'' \<longrightarrow> files fs' path = files fs path) \<and>
      dom (files fs') = insert ''./report.html'' (dom (files fs)) \<and>
      denied fs' = denied fs) \<and>
   (HTMLReport_print report fs = Inl e \<longrightarrow>
      e = IOError ''./report.html'' \<and> ''./report.html'' \<in> denied fs)"
  by (auto simp: HTMLReport_print_Inr HTMLReport_print_Inl)

theorem HTMLReport_print_frame_witness:
  "HTMLReport_print ''X won 3 games'' \<lparr>files = [''football.csv'' \<mapsto> ''a,b''], denied = {}\<rparr>
     = (Inr \<lparr>files = [''football.csv'' \<mapsto> ''a,b'', ''./report.html'' \<mapsto> HTMLReport_html ''X won 3 games''],
             denied = {}\<rparr> :: unit exn + filesystem) \<and>
   files \<lparr>files = [''football.csv'' \<mapsto> ''a,b'', ''./report.html'' \<mapsto> HTMLReport_html ''X won 3 games''],
          denied = {}\<rparr> ''football.csv''
     = files \<lparr>files = [''football.csv'' \<mapsto> ''a,b''], denied = {}\<rparr> ''football.csv'' \<and>
   HTMLReport_print ''X won 3 games'' \<lparr>files = Map.empty, denied = {''./report.html''}\<rparr>
     = (Inl (IOError ''./report.html'') :: unit exn + filesystem) \<and>
   ''./report.html'' \<in> denied \<lparr>files = Map.empty, denied = {''./report.html''}\<rparr>"
proof -
  have ok: "HTMLReport_print ''X won 3 games'' \<lparr>files = [''football.csv'' \<mapsto> ''a,b''], denied = {}\<rparr>
     = (Inr \<lparr>files = [''football.csv'' \<mapsto> ''a,b'', ''./report.html'' \<mapsto> HTMLReport_html ''X won 3 games''],
             denied = {}\<rparr> :: unit exn + filesystem)"
    by (simp add: HTMLReport_print_def writeFileSync_def)
  have bad: "HTMLReport_print ''X won 3 games'' \<lparr>files = Map.empty, denied = {''./report.html''}\<rparr>
     = (Inl (IOError ''./report.html'') :: unit exn + filesystem)"
    by (simp add: HTMLReport_print_def writeFileSync_def)
  have frame: "files \<lparr>files = [''football.csv'' \<mapsto> ''a,b'', ''./report.html'' \<mapsto> HTMLReport_html ''X won 3 games''],
          denied = {}\<rparr> ''football.csv''
     = files \<lparr>files = [''football.csv'' \<mapsto> ''a,b''], denied = {}\<rparr> ''football.csv''"
    using ok HTMLReport_print_frame [of "''X won 3 games''"
        "\<lparr>files = [''football.csv'' \<mapsto> ''a,b''], denied = {}\<rparr>"
        "\<lparr>files = [''football.csv'' \<mapsto> ''a,b'', ''./report.html'' \<mapsto> HTMLReport_html ''X won 3 games''],
             denied = {}\<rparr>"
        "IOError ''./report.html'' :: unit exn"]
    by simp
  have refused: "''./report.html'' \<in> denied \<lparr>files = Map.empty, denied = {''./report.html''}\<rparr>"
    using bad HTMLReport_print_frame [of "''X won 3 games''"
        "\<lparr>files = Map.empty, denied = {''./report.html''}\<rparr>"
        "\<lparr>files = Map.empty, denied = {}\<rparr>"
        "IOError ''./report.html'' :: unit exn"]
    by blast
  show ?thesis
    using ok bad frame refused by simp
qed


section \<open>Summary: the claims\<close>

text \<open>
  C8. \<^verbatim>\<open>buildAndPrintReport\<close> runs the analyzer on the list first and then hands the
  string it returned, as it is, to \<^verbatim>\<open>print\<close> of the output target, which sees the world
  as the analyzer left it; when the analyzer throws, \<^verbatim>\<open>print\<close> is not reached. The
  summary made by \<^verbatim>\<open>Summary.winsAnalysisWithHtmlReport(team)\<close> behaves as
  \<^verbatim>\<open>new Summary(new WinsAnalysis(team), new HTMLReport())\<close> does: it prints the summary of
  \<^verbatim>\<open>WinsAnalysis.run\<close> with \<^verbatim>\<open>HTMLReport.print\<close>.
\<close>

theorem Summary_buildAndPrintReport_run_then_print:
  "(analyzer this matches w = Inr (report, w') \<longrightarrow>
      Summary_buildAndPrintReport this matches w = outputTarget this report w') \<and>
   (analyzer this matches w = Inl e \<longrightarrow>
      Summary_buildAndPrintReport this matches w = Inl e) \<and>
   Summary_buildAndPrintReport (Summary_winsAnalysisWithHtmlReport team) ms fs
     = Summary_buildAndPrintReport
         \<lparr>analyzer = WinsAnalysis team, outputTarget = HTMLReport\<rparr> ms fs \<and>
   Summary_buildAndPrintReport (Summary_winsAnalysisWithHtmlReport team) ms fs
     = HTMLReport_print (WinsAnalysis_run team ms) fs"
  by (simp add: Summary_buildAndPrintReport_def Summary_winsAnalysisWithHtmlReport_def
      WinsAnalysis_def HTMLReport_def)

theorem Summary_buildAndPrintReport_run_then_print_witness:
  "Summary_buildAndPrintReport
       (Summary_winsAnalysisWithHtmlReport ''Bournemouth''
          :: (string, nat, filesystem, unit exn) Summary)
       [(''11/08/2018'', ''Bournemouth'', ''Cardiff'', 2, 0, ''H'', ''K Friend'')]
       \<lparr>files = Map.empty, denied = {}\<rparr>
     = Inr \<lparr>files = [''./report.html'' \<mapsto> HTMLReport_html ''Bournemouth won 1 games''],
            denied = {}\<rparr> \<and>
   Summary_buildAndPrintReport
       (\<lparr>analyzer = (\<lambda>matches w. Inl (Thrown ())), outputTarget = HTMLReport\<rparr>
          :: (string, nat, filesystem, unit exn) Summary)
       [(''11/08/2018'', ''Bournemouth'', ''Cardiff'', 2, 0, ''H'', ''K Friend'')]
       \<lparr>files = Map.empty, denied = {}\<rparr>
     = Inl (Thrown ())"
proof -
  let ?ms = "[(''11/08/2018'', ''Bournemouth'', ''Cardiff'', 2 :: nat, 0 :: nat, ''H'', ''K Friend'')]"
  let ?fs = "\<lparr>files = Map.empty, denied = {}\<rparr>"
  let ?s = "Summary_winsAnalysisWithHtmlReport ''Bournemouth''
              :: (string, nat, filesystem, unit exn) Summary"
  let ?t = "\<lparr>analyzer = (\<lambda>matches w. Inl (Thrown ())), outputTarget = HTMLReport\<rparr>
              :: (string, nat, filesystem, unit exn) Summary"
  have d1: "digitChar (Suc 0) = CHR ''1''"
    unfolding digitChar_def by code_simp
  have run: "WinsAnalysis_run ''Bournemouth'' ?ms = ''Bournemouth won 1 games''"
    by (simp add: WinsAnalysis_run_def at1_def at2_def at5_def HomeWin_def AwayWin_def
        numberToString.simps [of "Suc 0"] d1)
  have ran: "analyzer ?s ?ms ?fs = Inr (''Bournemouth won 1 games'', ?fs)"
    by (simp add: Summary_winsAnalysisWithHtmlReport_def WinsAnalysis_def run)
  have printed: "outputTarget ?s ''Bournemouth won 1 games'' ?fs
      = Inr \<lparr>files = [''./report.html'' \<mapsto> HTMLReport_html ''Bournemouth won 1 games''],
             denied = {}\<rparr>"
    by (simp add: Summary_winsAnalysisWithHtmlReport_def HTMLReport_def HTMLReport_print_def
        writeFileSync_def)
  have threw: "analyzer ?t ?ms ?fs = Inl (Thrown ())"
    by simp
  have "Summary_buildAndPrintReport ?s ?ms ?fs = outputTarget ?s ''Bournemouth won 1 games'' ?fs"
    using ran
      Summary_buildAndPrintReport_run_then_print
        [of ?s ?ms ?fs "''Bournemouth won 1 games''" ?fs "Thrown ()" "''Bournemouth''" ?ms ?fs]
    by blast
  then have a: "Summary_buildAndPrintReport ?s ?ms ?fs
      = Inr \<lparr>files = [''./report.html'' \<mapsto> HTMLReport_html ''Bournemouth won 1 games''],
             denied = {}\<rparr>"
    by (simp only: printed)
  have b: "Summary_buildAndPrintReport ?t ?ms ?fs = Inl (Thrown ())"
    using threw
      Summary_buildAndPrintReport_run_then_print
        [of ?t ?ms ?fs "''Bournemouth won 1 games''" ?fs "Thrown ()" "''Bournemouth''" ?ms ?fs]
    by blast
  show ?thesis
    using a b by simp
qed


end
